theory Spec2Isabelle
  imports Complex_Main "HOL-Library.Sublist"
begin

section \<open>Conversation history and the context-window budget\<close>

text \<open>
  The development embeds the class \<open>AzureOpenAIAgent\<close>. JavaScript strings are
  modelled as \<^typ>\<open>string\<close>, one \<^typ>\<open>char\<close> standing for one UTF-16 code unit, so
  that \<^const>\<open>length\<close> is the \<open>.length\<close> of the source. Lengths, counters and
  token numbers are JavaScript numbers holding non-negative integers below \<open>2^53\<close>,
  where the arithmetic of the source is exact; they are modelled as \<^typ>\<open>nat\<close>.
  Logging has no effect on the session and is left out.
\<close>

datatype role = user | assistant

record ConversationMessage =
  role :: role
  content :: string

definition CHARS_PER_TOKEN_ESTIMATE :: nat where
  "CHARS_PER_TOKEN_ESTIMATE = 4"

definition MAX_AZURE_CONTEXT_TOKENS :: nat where
  "MAX_AZURE_CONTEXT_TOKENS = 128000"

text \<open>\<open>estimateTokens(text) = Math.ceil(text.length / CHARS_PER_TOKEN_ESTIMATE)\<close>.\<close>

definition estimateTokens :: "string \<Rightarrow> nat" where
  "estimateTokens text = nat \<lceil>real (length text) / real CHARS_PER_TOKEN_ESTIMATE\<rceil>"

text \<open>
  The \<open>reduce\<close> of \<open>truncateHistory\<close>:
  \<open>history.reduce((sum, m) => sum + this.estimateTokens(m.content), 0)\<close>.
\<close>

definition totalTokens :: "ConversationMessage list \<Rightarrow> nat" where
  "totalTokens history = foldl (\<lambda>sum m. sum + estimateTokens (content m)) 0 history"

text \<open>
  The loop of \<open>truncateHistory\<close>, \<open>for (let i = history.length - 1; i >= 0; i--)\<close>,
  with the loop variable \<open>i\<close> and the two locals \<open>truncated\<close> and \<open>tokenCount\<close>;
  \<open>break\<close> leaves with the array built so far and \<open>unshift\<close> adds at the front. The
  index stays below \<open>history.length\<close>, so \<open>history[i]\<close> is always an entry.
\<close>

function truncateLoop ::
  "ConversationMessage list \<Rightarrow> int \<Rightarrow> ConversationMessage list \<Rightarrow> nat \<Rightarrow> ConversationMessage list"
where
  "truncateLoop history i truncated tokenCount =
     (if 0 \<le> i then
        (let msg = history ! nat i;
             msgTokens = estimateTokens (content msg)
         in if tokenCount + msgTokens > MAX_AZURE_CONTEXT_TOKENS then truncated
            else truncateLoop history (i - 1) (msg # truncated) (tokenCount + msgTokens))
      else truncated)"
  by pat_completeness auto
termination
  by (relation "measure (\<lambda>(history, i, truncated, tokenCount). nat (i + 1))") auto

definition truncateHistory :: "ConversationMessage list \<Rightarrow> ConversationMessage list" where
  "truncateHistory history =
     (if totalTokens history \<le> MAX_AZURE_CONTEXT_TOKENS then history
      else truncateLoop history (int (length history) - 1) [] 0)"

subsection \<open>The same function on a store of arrays\<close>

text \<open>
  JavaScript arrays are objects: \<open>truncateHistory\<close> receives a reference and either
  returns that reference or a new array that it fills with \<open>unshift\<close>. The store is
  the list of all arrays allocated so far, an address is an index into it, and
  \<open>[]\<close> allocates at the end.
\<close>

type_synonym addr = nat
type_synonym store = "ConversationMessage list list"

function truncateLoop_store :: "store \<Rightarrow> addr \<Rightarrow> addr \<Rightarrow> int \<Rightarrow> nat \<Rightarrow> store" where
  "truncateLoop_store st history truncated i tokenCount =
     (if 0 \<le> i then
        (let msg = (st ! history) ! nat i;
             msgTokens = estimateTokens (content msg)
         in if tokenCount + msgTokens > MAX_AZURE_CONTEXT_TOKENS then st
            else truncateLoop_store (st[truncated := msg # (st ! truncated)])
                   history truncated (i - 1) (tokenCount + msgTokens))
      else st)"
  by pat_completeness auto
termination
  by (relation "measure (\<lambda>(st, history, truncated, i, tokenCount). nat (i + 1))") auto

definition truncateHistory_store :: "store \<Rightarrow> addr \<Rightarrow> addr \<times> store" where
  "truncateHistory_store st history =
     (if totalTokens (st ! history) \<le> MAX_AZURE_CONTEXT_TOKENS then (history, st)
      else (let truncated = length st
            in (truncated,
                truncateLoop_store (st @ [[]]) history truncated
                  (int (length (st ! history)) - 1) 0)))"

section \<open>Errors, configuration and the backend reply\<close>

text \<open>
  A thrown value is a JavaScript error object, read through its \<open>name\<close> and its
  \<open>message\<close>; \<open>new Error(m)\<close> has the name \<open>Error\<close>.
\<close>

datatype js_error = JsError (errorName: string) (errorMessage: string)

definition newError :: "string \<Rightarrow> js_error" where
  "newError m = JsError ''Error'' m"

text \<open>
  Where an error was raised. The source has no such tag and its control flow never
  reads it: the \<open>catch\<close> block receives the error alone. It is kept so that a
  theorem can say which statement of the \<open>try\<close> block raised.
\<close>

datatype site = ConfigurationCheck | HandleStorage | HandleCheck | BackendCall | ResponseProcessing

type_synonym raised = "site \<times> js_error"

text \<open>Truthiness of a string that may be \<open>undefined\<close> or \<open>null\<close>, and \<open>a || d\<close>.\<close>

definition truthy :: "string option \<Rightarrow> bool" where
  "truthy v = (case v of None \<Rightarrow> False | Some s \<Rightarrow> s \<noteq> [])"

definition or_else :: "string option \<Rightarrow> string \<Rightarrow> string" where
  "or_else v d = (case v of None \<Rightarrow> d | Some s \<Rightarrow> if s = [] then d else s)"

text \<open>Template literals print a number in decimal.\<close>

definition digitChar :: "nat \<Rightarrow> char" where
  "digitChar d = ''0123456789'' ! d"

fun numberToString :: "nat \<Rightarrow> string" where
  "numberToString n =
     (if n < 10 then [digitChar n] else numberToString (n div 10) @ [digitChar (n mod 10)])"

definition DEFAULT_AZURE_API_VERSION :: string where
  "DEFAULT_AZURE_API_VERSION = ''2024-10-21''"

text \<open>
  The settings file as \<open>SettingsDefaultsManager.loadFromFile\<close> returns it (the four
  keys the agent reads), and the result of \<open>getAzureOpenAIConfig\<close>. The loader and
  \<open>getCredential\<close> are not part of the class: the loaded settings and the
  credential are arguments.
\<close>

record Settings =
  CLAUDE_MEM_AZURE_OPENAI_API_KEY :: "string option"
  CLAUDE_MEM_AZURE_OPENAI_ENDPOINT :: "string option"
  CLAUDE_MEM_AZURE_OPENAI_MODEL :: "string option"
  CLAUDE_MEM_AZURE_OPENAI_API_VERSION :: "string option"

record AzureOpenAIConfig =
  apiKey :: string
  endpoint :: string
  model :: string
  apiVersion :: string

definition getAzureOpenAIConfig :: "Settings \<Rightarrow> string option \<Rightarrow> AzureOpenAIConfig" where
  "getAzureOpenAIConfig settings credential =
     \<lparr>apiKey = or_else (CLAUDE_MEM_AZURE_OPENAI_API_KEY settings) (or_else credential []),
      endpoint = or_else (CLAUDE_MEM_AZURE_OPENAI_ENDPOINT settings) [],
      model = or_else (CLAUDE_MEM_AZURE_OPENAI_MODEL settings) [],
      apiVersion = or_else (CLAUDE_MEM_AZURE_OPENAI_API_VERSION settings) DEFAULT_AZURE_API_VERSION\<rparr>"

text \<open>The wire format: \<open>OpenAIMessage\<close>, the request and \<open>AzureChatCompletionsResponse\<close>.\<close>

datatype openai_role = system_role | user_role | assistant_role

record OpenAIMessage =
  openai_role :: openai_role
  openai_content :: string

definition conversationToOpenAIMessages :: "ConversationMessage list \<Rightarrow> OpenAIMessage list" where
  "conversationToOpenAIMessages history =
     map (\<lambda>msg. \<lparr>openai_role = (if role msg = assistant then assistant_role else user_role),
                 openai_content = content msg\<rparr>) history"

record Request =
  url :: string
  api_key_header :: string
  messages :: "OpenAIMessage list"
  temperature :: rat
  max_completion_tokens :: nat

record ChoiceMessage =
  message_role :: "string option"
  message_content :: "string option"

record Choice =
  choice_message :: "ChoiceMessage option"
  finish_reason :: "string option"

record Usage =
  prompt_tokens :: "nat option"
  completion_tokens :: "nat option"
  total_tokens :: "nat option"

record ApiError =
  api_error_message :: "string option"
  api_error_code :: "string option"

record AzureChatCompletionsResponse =
  choices :: "Choice list option"
  usage :: "Usage option"
  api_error :: "ApiError option"

text \<open>
  The \<open>Response\<close> of \<open>fetch\<close>: \<open>ok\<close>, \<open>status\<close>, and what \<open>text()\<close> and
  \<open>json()\<close> resolve to (either may reject).
\<close>

record Response =
  ok :: bool
  status :: nat
  body_text :: "js_error + string"
  body_json :: "js_error + AzureChatCompletionsResponse"

text \<open>What \<open>queryAzureOpenAIMultiTurn\<close> resolves to: \<open>{content, tokensUsed?}\<close>.\<close>

record BackendResponse =
  reply_content :: string
  tokensUsed :: "nat option"

definition normalizeEndpoint :: "string \<Rightarrow> string" where
  "normalizeEndpoint e = rev (dropWhile (\<lambda>c. c = CHR ''/'') (rev e))"

text \<open>\<open>data.choices?.[0]?.message?.content\<close>.\<close>

definition firstChoiceContent :: "AzureChatCompletionsResponse \<Rightarrow> string option" where
  "firstChoiceContent data =
     (case choices data of
        None \<Rightarrow> None
      | Some cs \<Rightarrow>
          (case cs of
             [] \<Rightarrow> None
           | c # _ \<Rightarrow> (case choice_message c of None \<Rightarrow> None | Some m \<Rightarrow> message_content m)))"

section \<open>The 70/30 split in double precision\<close>

text \<open>
  \<open>Math.floor(tokensUsed * 0.7)\<close> multiplies two IEEE 754 doubles. A positive
  double is \<open>m / 2^e\<close> with a significand \<open>m\<close> below \<open>2^53\<close>; the literals \<open>0.7\<close>
  and \<open>0.3\<close> denote the doubles nearest to 7/10 and 3/10. The product of the integer
  \<open>n\<close> and \<open>m / 2^e\<close> is the exact product \<open>n * m / 2^e\<close> rounded to 53
  significant bits, ties to even; between 0.3 and \<open>2^53\<close> no overflow or
  subnormal arises.
\<close>

fun bitlen :: "nat \<Rightarrow> nat" where
  "bitlen n = (if n = 0 then 0 else Suc (bitlen (n div 2)))"

definition roundSignificand :: "nat \<Rightarrow> nat" where
  "roundSignificand p =
     (if bitlen p \<le> 53 then p
      else (let s = bitlen p - 53; q = p div 2 ^ s; r = p mod 2 ^ s
            in if 2 * r > 2 ^ s \<or> (2 * r = 2 ^ s \<and> odd q) then (q + 1) * 2 ^ s
               else q * 2 ^ s))"

definition double_0_7 :: "nat \<times> nat" where
  "double_0_7 = (6305039478318694, 53)"

definition double_0_3 :: "nat \<times> nat" where
  "double_0_3 = (5404319552844595, 54)"

text \<open>\<open>Math.floor(n * c)\<close> for the double \<open>c = m / 2^e\<close>.\<close>

definition floorOfProduct :: "nat \<Rightarrow> nat \<times> nat \<Rightarrow> nat" where
  "floorOfProduct n c = roundSignificand (n * fst c) div 2 ^ snd c"

section \<open>The session, the work items and the collaborators\<close>

text \<open>The fields of \<open>ActiveSession\<close> that the agent reads or writes.\<close>

record ActiveSession =
  sessionDbId :: nat
  contentSessionId :: string
  memorySessionId :: "string option"
  project :: string
  userPrompt :: string
  lastPromptNumber :: nat
  conversationHistory :: "ConversationMessage list"
  cumulativeInputTokens :: nat
  cumulativeOutputTokens :: nat
  processingMessageIds :: "nat list"
  earliestPendingTimestamp :: "nat option"
  startTime :: nat

text \<open>
  A queued message as the iterator yields it. \<open>tool_input\<close> and \<open>tool_response\<close>
  hold the text that \<open>JSON.stringify\<close> gives for them.
\<close>

datatype message_type = observation | summarize | other_type

record PendingMessage =
  persistentId :: nat
  message_type :: message_type
  cwd :: "string option"
  prompt_number :: "nat option"
  tool_name :: string
  tool_input :: string
  tool_response :: string
  last_assistant_message :: "string option"

record ObservationData =
  obs_id :: nat
  obs_tool_name :: string
  obs_tool_input :: string
  obs_tool_output :: string
  created_at_epoch :: nat
  obs_cwd :: "string option"

record SummaryData =
  sum_id :: nat
  memory_session_id :: string
  sum_project :: string
  user_prompt :: string
  sum_last_assistant_message :: string

text \<open>
  The agent's collaborators are imported from other modules: the four prompt
  builders, \<open>processAgentResponse\<close>, \<open>shouldFallbackToClaude\<close>, \<open>isAbortError\<close>,
  the session store, the mode manager, and the runtime's \<open>fetch\<close>,
  \<open>encodeURIComponent\<close> and \<open>Date.now\<close>. They are parameters of the model. \<open>'w\<close> is
  the state of everything outside the session object (clock, database, network);
  a call that has an effect takes it and returns it, and a call that may throw
  returns the error. \<open>processAgentResponse\<close> receives the session object and may
  write to it, so it returns the session as well.
\<close>

record ('w, 'm) env =
  buildInitPrompt :: "string \<Rightarrow> string \<Rightarrow> string \<Rightarrow> 'm \<Rightarrow> string"
  buildContinuationPrompt :: "string \<Rightarrow> nat \<Rightarrow> string \<Rightarrow> 'm \<Rightarrow> string"
  buildObservationPrompt :: "ObservationData \<Rightarrow> string"
  buildSummaryPrompt :: "SummaryData \<Rightarrow> 'm \<Rightarrow> string"
  processAgentResponse ::
    "string \<Rightarrow> ActiveSession \<Rightarrow> nat \<Rightarrow> nat option \<Rightarrow> string option \<Rightarrow> 'w
      \<Rightarrow> js_error option \<times> ActiveSession \<times> 'w"
  shouldFallbackToClaude :: "js_error \<Rightarrow> bool"
  isAbortError :: "js_error \<Rightarrow> bool"
  updateMemorySessionId :: "nat \<Rightarrow> string \<Rightarrow> 'w \<Rightarrow> js_error option \<times> 'w"
  getActiveMode :: "'w \<Rightarrow> 'm"
  fetch :: "Request \<Rightarrow> 'w \<Rightarrow> (js_error + Response) \<times> 'w"
  encodeURIComponent :: "string \<Rightarrow> string"
  Date_now :: "'w \<Rightarrow> nat"

section \<open>The backend query\<close>

text \<open>
  \<open>queryAzureOpenAIMultiTurn\<close> from the request on: the URL, the body, \<open>fetch\<close>
  and the reading of the reply. \<open>payload\<close> is the \<open>truncatedHistory\<close> of the source.
\<close>

definition sendPayload ::
  "('w, 'm) env \<Rightarrow> ConversationMessage list \<Rightarrow> string \<Rightarrow> string \<Rightarrow> string \<Rightarrow> string \<Rightarrow> 'w
    \<Rightarrow> (js_error + BackendResponse) \<times> 'w"
where
  "sendPayload env payload key endp mdl version w =
     (let normalizedEndpoint = normalizeEndpoint endp;
          msgs = conversationToOpenAIMessages payload;
          u = normalizedEndpoint @ ''/openai/deployments/'' @ encodeURIComponent env mdl
                @ ''/chat/completions?api-version='' @ encodeURIComponent env version;
          request = \<lparr>url = u, api_key_header = key, messages = msgs,
                     temperature = 3 / 10, max_completion_tokens = 4096\<rparr>
      in case fetch env request w of
           (Inl e, w') \<Rightarrow> (Inl e, w')
         | (Inr response, w') \<Rightarrow>
             if \<not> ok response then
               (case body_text response of
                  Inl e \<Rightarrow> (Inl e, w')
                | Inr errorText \<Rightarrow>
                    (Inl (newError (''Azure OpenAI API error: '' @ numberToString (status response)
                                     @ '' - '' @ errorText)), w'))
             else
               (case body_json response of
                  Inl e \<Rightarrow> (Inl e, w')
                | Inr data \<Rightarrow>
                    (case api_error data of
                       Some err \<Rightarrow>
                         (Inl (newError (''Azure OpenAI API error: ''
                                 @ or_else (api_error_code err) ''unknown'' @ '' - ''
                                 @ or_else (api_error_message err) ''Unknown error'')), w')
                     | None \<Rightarrow>
                         (case firstChoiceContent data of
                            None \<Rightarrow> (Inr \<lparr>reply_content = [], tokensUsed = None\<rparr>, w')
                          | Some c \<Rightarrow>
                              if c = [] then (Inr \<lparr>reply_content = [], tokensUsed = None\<rparr>, w')
                              else (Inr \<lparr>reply_content = c,
                                         tokensUsed = (case usage data of
                                                         None \<Rightarrow> None
                                                       | Some us \<Rightarrow> total_tokens us)\<rparr>, w')))))"

definition queryAzureOpenAIMultiTurn ::
  "('w, 'm) env \<Rightarrow> ConversationMessage list \<Rightarrow> string \<Rightarrow> string \<Rightarrow> string \<Rightarrow> string \<Rightarrow> 'w
    \<Rightarrow> (js_error + BackendResponse) \<times> 'w"
where
  "queryAzureOpenAIMultiTurn env history key endp mdl version w =
     sendPayload env (truncateHistory history) key endp mdl version w"

text \<open>The same call on the store: \<open>history\<close> is a reference to the session's array.\<close>

definition queryAzureOpenAIMultiTurn_store ::
  "('w, 'm) env \<Rightarrow> store \<Rightarrow> addr \<Rightarrow> string \<Rightarrow> string \<Rightarrow> string \<Rightarrow> string \<Rightarrow> 'w
    \<Rightarrow> ((js_error + BackendResponse) \<times> 'w) \<times> store"
where
  "queryAzureOpenAIMultiTurn_store env st history key endp mdl version w =
     (case truncateHistory_store st history of
        (truncatedHistory, st') \<Rightarrow>
          (sendPayload env (st' ! truncatedHistory) key endp mdl version w, st'))"

section \<open>One pass over a session\<close>

text \<open>
  The block that follows each backend call in the loop:
  \<open>let tokensUsed = 0; if (response.content) { push the assistant entry;
  tokensUsed = response.tokensUsed || 0; add the two floors }\<close>. It yields the
  session and the local \<open>tokensUsed\<close>.
\<close>

definition recordReply :: "ActiveSession \<Rightarrow> BackendResponse \<Rightarrow> ActiveSession \<times> nat" where
  "recordReply session response =
     (if reply_content response \<noteq> [] then
        (let used = (case tokensUsed response of None \<Rightarrow> 0 | Some n \<Rightarrow> n)
         in (session\<lparr>conversationHistory :=
                        conversationHistory session
                          @ [\<lparr>role = assistant, content = reply_content response\<rparr>],
                     cumulativeInputTokens :=
                        cumulativeInputTokens session + floorOfProduct used double_0_7,
                     cumulativeOutputTokens :=
                        cumulativeOutputTokens session + floorOfProduct used double_0_3\<rparr>,
             used))
      else (session, 0))"

text \<open>A user entry is pushed before every backend call.\<close>

definition pushUser :: "ActiveSession \<Rightarrow> string \<Rightarrow> ActiveSession" where
  "pushUser session prompt =
     session\<lparr>conversationHistory :=
               conversationHistory session @ [\<lparr>role = user, content = prompt\<rparr>]\<rparr>"

text \<open>
  The call of \<open>processAgentResponse\<close> and what the \<open>try\<close> block does with its
  outcome: an error leaves the block, otherwise the pass goes on with the session
  as the processor left it.
\<close>

definition handOver ::
  "('w, 'm) env \<Rightarrow> string \<Rightarrow> ActiveSession \<Rightarrow> nat \<Rightarrow> nat option \<Rightarrow> string option \<Rightarrow> 'w
    \<Rightarrow> (raised + unit) \<times> ActiveSession \<times> 'w"
where
  "handOver env txt session used originalTimestamp lastCwd w =
     (case processAgentResponse env txt session used originalTimestamp lastCwd w of
        (Some e, session', w') \<Rightarrow> (Inl (ResponseProcessing, e), session', w')
      | (None, session', w') \<Rightarrow> (Inr (), session', w'))"

text \<open>
  \<open>if (!session.memorySessionId) { ... }\<close>: the synthetic handle is built from the
  content session id and the clock, stored in the session and written to the
  session store.
\<close>

definition syntheticMemorySessionId :: "ActiveSession \<Rightarrow> nat \<Rightarrow> string" where
  "syntheticMemorySessionId session now =
     ''azure-openai-'' @ contentSessionId session @ ''-'' @ numberToString now"

definition assignMemorySessionId ::
  "('w, 'm) env \<Rightarrow> ActiveSession \<Rightarrow> 'w \<Rightarrow> (raised + unit) \<times> ActiveSession \<times> 'w"
where
  "assignMemorySessionId env session w =
     (if \<not> truthy (memorySessionId session) then
        (let sid = syntheticMemorySessionId session (Date_now env w);
             session' = session\<lparr>memorySessionId := Some sid\<rparr>
         in case updateMemorySessionId env (sessionDbId session) sid w of
              (Some e, w') \<Rightarrow> (Inl (HandleStorage, e), session', w')
            | (None, w') \<Rightarrow> (Inr (), session', w'))
      else (Inr (), session, w))"

definition observationsError :: js_error where
  "observationsError = newError
     ''Cannot process observations: memorySessionId not yet captured. This session may need to be reinitialized.''"

definition summaryError :: js_error where
  "summaryError = newError
     ''Cannot process summary: memorySessionId not yet captured. This session may need to be reinitialized.''"

text \<open>
  The body of the \<open>for await\<close> loop for one message. The loop state is the session,
  the local \<open>lastCwd\<close> and the outside world.
\<close>

definition processItem ::
  "('w, 'm) env \<Rightarrow> AzureOpenAIConfig \<Rightarrow> 'm \<Rightarrow> ActiveSession \<times> string option \<times> 'w \<Rightarrow> PendingMessage
    \<Rightarrow> (raised + unit) \<times> ActiveSession \<times> string option \<times> 'w"
where
  "processItem env cfg mode state msg =
     (case state of (session0, lastCwd0, w) \<Rightarrow>
        (let session1 = session0\<lparr>processingMessageIds :=
                                   processingMessageIds session0 @ [persistentId msg]\<rparr>;
             lastCwd = (if truthy (cwd msg) then cwd msg else lastCwd0);
             originalTimestamp = earliestPendingTimestamp session1
         in if message_type msg = observation then
              (let session2 = (case prompt_number msg of
                                 Some n \<Rightarrow> session1\<lparr>lastPromptNumber := n\<rparr>
                               | None \<Rightarrow> session1)
               in if \<not> truthy (memorySessionId session2) then
                    (Inl (HandleCheck, observationsError), session2, lastCwd, w)
                  else
                    (let obsPrompt = buildObservationPrompt env
                           \<lparr>obs_id = 0, obs_tool_name = tool_name msg,
                            obs_tool_input = tool_input msg, obs_tool_output = tool_response msg,
                            created_at_epoch = (case originalTimestamp of
                                                  Some t \<Rightarrow> t | None \<Rightarrow> Date_now env w),
                            obs_cwd = cwd msg\<rparr>;
                         session3 = pushUser session2 obsPrompt
                     in case queryAzureOpenAIMultiTurn env (conversationHistory session3)
                               (apiKey cfg) (endpoint cfg) (model cfg) (apiVersion cfg) w of
                          (Inl e, w') \<Rightarrow> (Inl (BackendCall, e), session3, lastCwd, w')
                        | (Inr obsResponse, w') \<Rightarrow>
                            (case recordReply session3 obsResponse of
                               (session4, used) \<Rightarrow>
                                 (case handOver env (reply_content obsResponse) session4 used
                                         originalTimestamp lastCwd w' of
                                    (r, session5, w'') \<Rightarrow> (r, session5, lastCwd, w'')))))
            else if message_type msg = summarize then
              (case memorySessionId session1 of
                 None \<Rightarrow> (Inl (HandleCheck, summaryError), session1, lastCwd, w)
               | Some handle \<Rightarrow>
                   if handle = [] then (Inl (HandleCheck, summaryError), session1, lastCwd, w)
                   else
                     (let summaryPrompt = buildSummaryPrompt env
                            \<lparr>sum_id = sessionDbId session1, memory_session_id = handle,
                             sum_project = project session1, user_prompt = userPrompt session1,
                             sum_last_assistant_message =
                               or_else (last_assistant_message msg) []\<rparr> mode;
                          session3 = pushUser session1 summaryPrompt
                      in case queryAzureOpenAIMultiTurn env (conversationHistory session3)
                                (apiKey cfg) (endpoint cfg) (model cfg) (apiVersion cfg) w of
                           (Inl e, w') \<Rightarrow> (Inl (BackendCall, e), session3, lastCwd, w')
                         | (Inr summaryResponse, w') \<Rightarrow>
                             (case recordReply session3 summaryResponse of
                                (session4, used) \<Rightarrow>
                                  (case handOver env (reply_content summaryResponse) session4 used
                                          originalTimestamp lastCwd w' of
                                     (r, session5, w'') \<Rightarrow> (r, session5, lastCwd, w'')))))
            else (Inr (), session1, lastCwd, w)))"

text \<open>
  The \<open>for await\<close> loop over the messages that the iterator yields during the pass;
  an error leaves the loop.
\<close>

fun messageLoop ::
  "('w, 'm) env \<Rightarrow> AzureOpenAIConfig \<Rightarrow> 'm \<Rightarrow> ActiveSession \<times> string option \<times> 'w
    \<Rightarrow> PendingMessage list \<Rightarrow> (raised + unit) \<times> ActiveSession \<times> string option \<times> 'w"
where
  "messageLoop env cfg mode state [] = (Inr (), state)"
| "messageLoop env cfg mode state (msg # rest) =
     (case processItem env cfg mode state msg of
        (Inl e, state') \<Rightarrow> (Inl e, state')
      | (Inr u, state') \<Rightarrow> messageLoop env cfg mode state' rest)"

definition apiKeyError :: js_error where
  "apiKeyError = newError
     ''Azure OpenAI API key not configured. Set CLAUDE_MEM_AZURE_OPENAI_API_KEY in settings or AZURE_OPENAI_API_KEY environment variable.''"

definition endpointModelError :: js_error where
  "endpointModelError = newError
     ''Azure OpenAI endpoint or model not configured. Set CLAUDE_MEM_AZURE_OPENAI_ENDPOINT and CLAUDE_MEM_AZURE_OPENAI_MODEL in settings.''"

text \<open>
  The first exchange of the pass: the init or continuation prompt, the backend
  call, and the reply, which is handed to the processor only when it is not empty.
\<close>

definition initExchange ::
  "('w, 'm) env \<Rightarrow> AzureOpenAIConfig \<Rightarrow> 'm \<Rightarrow> ActiveSession \<Rightarrow> 'w
    \<Rightarrow> (raised + unit) \<times> ActiveSession \<times> 'w"
where
  "initExchange env cfg mode session w =
     (let initPrompt =
            (if lastPromptNumber session = 1
             then buildInitPrompt env (project session) (contentSessionId session)
                    (userPrompt session) mode
             else buildContinuationPrompt env (userPrompt session) (lastPromptNumber session)
                    (contentSessionId session) mode);
          session1 = pushUser session initPrompt
      in case queryAzureOpenAIMultiTurn env (conversationHistory session1)
                (apiKey cfg) (endpoint cfg) (model cfg) (apiVersion cfg) w of
           (Inl e, w') \<Rightarrow> (Inl (BackendCall, e), session1, w')
         | (Inr initResponse, w') \<Rightarrow>
             if reply_content initResponse \<noteq> [] then
               (case recordReply session1 initResponse of
                  (session2, used) \<Rightarrow>
                    handOver env (reply_content initResponse) session2 used None None w')
             else (Inr (), session1, w'))"

text \<open>The \<open>try\<close> block of \<open>startSession\<close>.\<close>

definition tryBlock ::
  "('w, 'm) env \<Rightarrow> Settings \<Rightarrow> string option \<Rightarrow> ActiveSession \<Rightarrow> PendingMessage list \<Rightarrow> 'w
    \<Rightarrow> (raised + unit) \<times> ActiveSession \<times> 'w"
where
  "tryBlock env settings credential session pending w =
     (let cfg = getAzureOpenAIConfig settings credential
      in if apiKey cfg = [] then (Inl (ConfigurationCheck, apiKeyError), session, w)
         else if endpoint cfg = [] \<or> model cfg = [] then
           (Inl (ConfigurationCheck, endpointModelError), session, w)
         else
           (case assignMemorySessionId env session w of
              (Inl e, session1, w1) \<Rightarrow> (Inl e, session1, w1)
            | (Inr u, session1, w1) \<Rightarrow>
                (let mode = getActiveMode env w1
                 in case initExchange env cfg mode session1 w1 of
                      (Inl e, session2, w2) \<Rightarrow> (Inl e, session2, w2)
                    | (Inr u', session2, w2) \<Rightarrow>
                        (case messageLoop env cfg mode (session2, None, w2) pending of
                           (r, session3, lastCwd, w3) \<Rightarrow> (r, session3, w3)))))"

text \<open>
  How a pass ends: the promise resolves, it rejects with an error, or it is the
  promise of \<open>fallbackAgent.startSession(session, worker)\<close>, called on the session
  object as it is at that moment.
\<close>

datatype 'w outcome =
    Resolved ActiveSession 'w
  | Rejected js_error ActiveSession 'w
  | HandedToFallback ActiveSession 'w

text \<open>The \<open>catch\<close> block; \<open>fallbackAgent\<close> says whether the field is set.\<close>

definition catchBlock ::
  "('w, 'm) env \<Rightarrow> bool \<Rightarrow> js_error \<Rightarrow> ActiveSession \<Rightarrow> 'w \<Rightarrow> 'w outcome"
where
  "catchBlock env fallbackAgent e session w =
     (if isAbortError env e then Rejected e session w
      else if shouldFallbackToClaude env e \<and> fallbackAgent then HandedToFallback session w
      else Rejected e session w)"

definition startSession ::
  "('w, 'm) env \<Rightarrow> bool \<Rightarrow> Settings \<Rightarrow> string option \<Rightarrow> ActiveSession \<Rightarrow> PendingMessage list \<Rightarrow> 'w
    \<Rightarrow> 'w outcome"
where
  "startSession env fallbackAgent settings credential session pending w =
     (case tryBlock env settings credential session pending w of
        (Inl (s, e), session', w') \<Rightarrow> catchBlock env fallbackAgent e session' w'
      | (Inr u, session', w') \<Rightarrow> Resolved session' w')"

section \<open>A concrete environment\<close>

text \<open>
  Modelled from the spec: \<open>isAbortError\<close> and \<open>shouldFallbackToClaude\<close> are imported
  from \<open>./agents/index.js\<close>, which is not among the sources. Section 4.5 of the
  specification: a failure is retryable-to-fallback if it is a configuration,
  transport, or provider error on the current backend (not a cancellation). A
  cancellation is taken to be an error whose name is \<open>AbortError\<close>. These two are
  used only where the model is evaluated on concrete collaborators; the theorems
  hold for any pair of classifiers.
\<close>

definition spec_isAbortError :: "js_error \<Rightarrow> bool" where
  "spec_isAbortError e = (errorName e = ''AbortError'')"

definition spec_shouldFallbackToClaude :: "js_error \<Rightarrow> bool" where
  "spec_shouldFallbackToClaude e = (\<not> spec_isAbortError e)"

text \<open>
  Three behaviours of \<open>fetch\<close>, with a clock as the outside world that ticks at every
  call: a reply with the given content and usage, a transport failure with a
  status, and a rejection.
\<close>

definition replyWith ::
  "string \<Rightarrow> nat option \<Rightarrow> Request \<Rightarrow> nat \<Rightarrow> (js_error + Response) \<times> nat"
where
  "replyWith c n request w =
     (Inr \<lparr>ok = True, status = 200, body_text = Inr [],
           body_json = Inr \<lparr>choices = Some [\<lparr>choice_message =
                                                  Some \<lparr>message_role = Some ''assistant'',
                                                        message_content = Some c\<rparr>,
                                                finish_reason = Some ''stop''\<rparr>],
                             usage = Some \<lparr>prompt_tokens = None, completion_tokens = None,
                                           total_tokens = n\<rparr>,
                             api_error = None\<rparr>\<rparr>,
      Suc w)"


definition rejectWith :: "js_error \<Rightarrow> Request \<Rightarrow> nat \<Rightarrow> (js_error + Response) \<times> nat" where
  "rejectWith e request w = (Inl e, Suc w)"


definition sample_env ::
  "(Request \<Rightarrow> nat \<Rightarrow> (js_error + Response) \<times> nat) \<Rightarrow> (nat, unit) env"
where
  "sample_env f =
     \<lparr>buildInitPrompt = (\<lambda>proj sid prompt mode. ''init '' @ prompt),
      buildContinuationPrompt = (\<lambda>prompt n sid mode. ''continue '' @ prompt),
      buildObservationPrompt = (\<lambda>d. ''observed '' @ obs_tool_name d),
      buildSummaryPrompt = (\<lambda>d mode. ''summarize''),
      processAgentResponse = (\<lambda>txt session used ts dir w. (None, session, w)),
      shouldFallbackToClaude = spec_shouldFallbackToClaude,
      isAbortError = spec_isAbortError,
      updateMemorySessionId = (\<lambda>dbId sid w. (None, w)),
      getActiveMode = (\<lambda>w. ()),
      fetch = f,
      encodeURIComponent = (\<lambda>s. s),
      Date_now = (\<lambda>w. w)\<rparr>"

definition sample_settings :: Settings where
  "sample_settings =
     \<lparr>CLAUDE_MEM_AZURE_OPENAI_API_KEY = Some ''key'',
      CLAUDE_MEM_AZURE_OPENAI_ENDPOINT = Some ''https://example.openai.azure.com/'',
      CLAUDE_MEM_AZURE_OPENAI_MODEL = Some ''gpt-4o'',
      CLAUDE_MEM_AZURE_OPENAI_API_VERSION = None\<rparr>"

definition sample_session :: ActiveSession where
  "sample_session =
     \<lparr>sessionDbId = 1, contentSessionId = ''abc'', memorySessionId = None,
      project = ''demo'', userPrompt = ''hello'', lastPromptNumber = 1,
      conversationHistory = [], cumulativeInputTokens = 0, cumulativeOutputTokens = 0,
      processingMessageIds = [], earliestPendingTimestamp = None, startTime = 0\<rparr>"

definition sample_observation :: PendingMessage where
  "sample_observation =
     \<lparr>persistentId = 7, message_type = observation, cwd = Some ''/src'',
      prompt_number = Some 2, tool_name = ''Read'', tool_input = ''{}'',
      tool_response = ''{}'', last_assistant_message = None\<rparr>"

definition sample_summarize :: PendingMessage where
  "sample_summarize =
     \<lparr>persistentId = 8, message_type = summarize, cwd = None,
      prompt_number = None, tool_name = [], tool_input = [],
      tool_response = [], last_assistant_message = Some ''done''\<rparr>"

section \<open>Facts about the estimate and the truncation loop\<close>

declare truncateLoop.simps [simp del] truncateLoop_store.simps [simp del]

lemma estimateTokens_div: "estimateTokens text = (length text + 3) div 4"
proof -
  have "\<lceil>real (length text) / 4\<rceil> = \<lceil>of_int (int (length text)) / (of_int 4 :: real)\<rceil>"
    by simp
  also have "\<dots> = - (- int (length text) div 4)"
    by (rule ceiling_divide_eq_div)
  also have "\<dots> = int ((length text + 3) div 4)"
    by (simp add: zdiv_int) linarith?
  finally show ?thesis
    by (simp add: estimateTokens_def CHARS_PER_TOKEN_ESTIMATE_def)
qed

lemma totalTokens_sum: "totalTokens history = sum_list (map (\<lambda>m. estimateTokens (content m)) history)"
proof -
  have "foldl (\<lambda>sum m. sum + estimateTokens (content m)) a history =
        a + sum_list (map (\<lambda>m. estimateTokens (content m)) history)" for a
    by (induction history arbitrary: a) simp_all
  then show ?thesis by (simp add: totalTokens_def)
qed

lemma truncateLoop_drop:
  "i < int (length h) \<Longrightarrow> - 1 \<le> i \<Longrightarrow> tr = drop (nat (i + 1)) h \<Longrightarrow>
   \<exists>j. j \<le> nat (i + 1) \<and> truncateLoop h i tr tc = drop j h"
proof (induction h i tr tc rule: truncateLoop.induct)
  case (1 history i truncated tokenCount)
  show ?case
  proof (cases "0 \<le> i")
    case False
    with "1.prems" show ?thesis by (subst truncateLoop.simps) auto
  next
    case nonneg: True
    show ?thesis
    proof (cases "tokenCount + estimateTokens (content (history ! nat i)) > MAX_AZURE_CONTEXT_TOKENS")
      case True
      with nonneg "1.prems" show ?thesis by (subst truncateLoop.simps) auto
    next
      case False
      from nonneg "1.prems" have lt: "nat i < length history" by linarith
      have step: "history ! nat i # truncated = drop (nat (i - 1 + 1)) history"
        using "1.prems" nonneg Cons_nth_drop_Suc [OF lt] by (simp add: nat_add_distrib)
      have "\<exists>j. j \<le> nat (i - 1 + 1) \<and>
          truncateLoop history (i - 1) (history ! nat i # truncated)
            (tokenCount + estimateTokens (content (history ! nat i))) = drop j history"
        using "1.IH" [OF nonneg refl refl _ _ _ step] False "1.prems" nonneg by simp
      then obtain j where "j \<le> nat i"
        "truncateLoop history (i - 1) (history ! nat i # truncated)
            (tokenCount + estimateTokens (content (history ! nat i))) = drop j history"
        by auto
      with False nonneg show ?thesis
        by (subst truncateLoop.simps) (auto simp: Let_def intro!: exI [of _ j])
    qed
  qed
qed

lemma truncateLoop_store_refines:
  "h < length st \<Longrightarrow>
   truncateLoop_store (st @ [tr]) h (length st) i tc = st @ [truncateLoop (st ! h) i tr tc]"
proof (induction "st ! h" i tr tc rule: truncateLoop.induct)
  case (1 i truncated tokenCount)
  show ?case
  proof (cases "0 \<le> i \<and> \<not> tokenCount + estimateTokens (content (st ! h ! nat i)) > MAX_AZURE_CONTEXT_TOKENS")
    case False
    with "1.prems" show ?thesis
      by (subst truncateLoop_store.simps, subst truncateLoop.simps) (auto simp: Let_def nth_append)
  next
    case True
    then have "truncateLoop_store (st @ [st ! h ! nat i # truncated]) h (length st) (i - 1)
                 (tokenCount + estimateTokens (content (st ! h ! nat i)))
             = st @ [truncateLoop (st ! h) (i - 1) (st ! h ! nat i # truncated)
                 (tokenCount + estimateTokens (content (st ! h ! nat i)))]"
      using "1.hyps" [OF _ refl refl _ "1.prems"] by simp
    with True "1.prems" show ?thesis
      by (subst truncateLoop_store.simps, subst truncateLoop.simps) (simp add: Let_def nth_append)
  qed
qed

lemma truncateHistory_store_refines:
  assumes "h < length st"
  shows "take (length st) (snd (truncateHistory_store st h)) = st"
    and "snd (truncateHistory_store st h) ! fst (truncateHistory_store st h) = truncateHistory (st ! h)"
proof -
  have loop: "truncateLoop_store (st @ [[]]) h (length st) i 0 = st @ [truncateLoop (st ! h) i [] 0]" for i
    by (rule truncateLoop_store_refines [OF assms])
  show "take (length st) (snd (truncateHistory_store st h)) = st"
    by (cases "totalTokens (st ! h) \<le> MAX_AZURE_CONTEXT_TOKENS")
       (simp_all add: truncateHistory_store_def Let_def loop)
  show "snd (truncateHistory_store st h) ! fst (truncateHistory_store st h) = truncateHistory (st ! h)"
    by (cases "totalTokens (st ! h) \<le> MAX_AZURE_CONTEXT_TOKENS")
       (simp_all add: truncateHistory_store_def truncateHistory_def Let_def loop)
qed

lemma truncateLoop_budget:
  "tc = totalTokens tr \<Longrightarrow> tc \<le> MAX_AZURE_CONTEXT_TOKENS \<Longrightarrow>
   totalTokens (truncateLoop h i tr tc) \<le> MAX_AZURE_CONTEXT_TOKENS"
proof (induction h i tr tc rule: truncateLoop.induct)
  case (1 history i truncated tokenCount)
  show ?case
  proof (cases "0 \<le> i \<and> \<not> tokenCount + estimateTokens (content (history ! nat i)) > MAX_AZURE_CONTEXT_TOKENS")
    case False
    with "1.prems" show ?thesis by (subst truncateLoop.simps) (auto simp: Let_def)
  next
    case True
    then have "totalTokens (truncateLoop history (i - 1) (history ! nat i # truncated)
            (tokenCount + estimateTokens (content (history ! nat i)))) \<le> MAX_AZURE_CONTEXT_TOKENS"
      using "1.IH" [OF _ refl refl] "1.prems" by (simp add: totalTokens_sum)
    with True show ?thesis by (subst truncateLoop.simps) (simp add: Let_def)
  qed
qed

lemma truncateLoop_keeps:
  "\<exists>xs. truncateLoop h i tr tc = xs @ tr"
proof (induction h i tr tc rule: truncateLoop.induct)
  case (1 history i truncated tokenCount)
  show ?case
  proof (cases "0 \<le> i \<and> \<not> tokenCount + estimateTokens (content (history ! nat i)) > MAX_AZURE_CONTEXT_TOKENS")
    case False
    then show ?thesis by (subst truncateLoop.simps) (auto simp: Let_def)
  next
    case True
    then obtain xs where "truncateLoop history (i - 1) (history ! nat i # truncated)
            (tokenCount + estimateTokens (content (history ! nat i))) = xs @ history ! nat i # truncated"
      using "1.IH" [OF _ refl refl] by auto
    with True show ?thesis
      by (subst truncateLoop.simps) (auto simp: Let_def intro: exI [of _ "xs @ [history ! nat i]"])
  qed
qed

lemma truncateLoop_newest:
  assumes "h \<noteq> []" "estimateTokens (content (last h)) \<le> MAX_AZURE_CONTEXT_TOKENS"
  shows "\<exists>xs. truncateLoop h (int (length h) - 1) [] 0 = xs @ [last h]"
proof -
  from assms(1) have i: "0 \<le> int (length h) - 1" by (cases h) auto
  from assms(1) have nth: "h ! nat (int (length h) - 1) = last h"
    by (simp add: last_conv_nth nat_diff_distrib')
  show ?thesis
    using assms(2) i nth truncateLoop_keeps [of h "int (length h) - 1 - 1" "[last h]"]
    by (subst truncateLoop.simps) (simp add: Let_def)
qed

lemma truncateLoop_oversized:
  assumes "h \<noteq> []" "estimateTokens (content (last h)) > MAX_AZURE_CONTEXT_TOKENS"
  shows "truncateLoop h (int (length h) - 1) [] 0 = []"
proof -
  from assms(1) have i: "0 \<le> int (length h) - 1" by (cases h) auto
  from assms(1) have nth: "h ! nat (int (length h) - 1) = last h"
    by (simp add: last_conv_nth nat_diff_distrib')
  show ?thesis
    using assms(2) i nth by (subst truncateLoop.simps) (simp add: Let_def)
qed

section \<open>Facts about the decimal rendering\<close>

declare numberToString.simps [simp del] bitlen.simps [simp del]

lemma digitChar_inj: "a < 10 \<Longrightarrow> b < 10 \<Longrightarrow> digitChar a = digitChar b \<Longrightarrow> a = b"
  by (auto simp: digitChar_def less_Suc_eq numeral_eq_Suc)

lemma numberToString_nonempty: "numberToString n \<noteq> []"
  by (subst numberToString.simps) simp

lemma numberToString_inj: "numberToString n = numberToString m \<Longrightarrow> n = m"
proof (induction n arbitrary: m rule: numberToString.induct)
  case (1 n)
  show ?case
  proof (cases "n < 10")
    case small: True
    show ?thesis
    proof (cases "m < 10")
      case True
      with small "1.prems" show ?thesis
        by (subst (asm) numberToString.simps, subst (asm) (2) numberToString.simps)
           (simp add: digitChar_inj)
    next
      case False
      with small "1.prems" numberToString_nonempty [of "m div 10"] show ?thesis
        by (subst (asm) numberToString.simps, subst (asm) (2) numberToString.simps) simp
    qed
  next
    case big: False
    show ?thesis
    proof (cases "m < 10")
      case True
      with big "1.prems" numberToString_nonempty [of "n div 10"] show ?thesis
        by (subst (asm) numberToString.simps, subst (asm) (2) numberToString.simps) simp
    next
      case False
      with big "1.prems" have "numberToString (n div 10) = numberToString (m div 10)"
        and d: "digitChar (n mod 10) = digitChar (m mod 10)"
        by (subst (asm) numberToString.simps, subst (asm) (2) numberToString.simps, simp)+
      then have "n div 10 = m div 10" using "1.IH" [OF big] by simp
      moreover from d have "n mod 10 = m mod 10" by (simp add: digitChar_inj)
      ultimately show ?thesis by (metis div_mult_mod_eq)
    qed
  qed
qed

lemma syntheticMemorySessionId_inj:
  "(syntheticMemorySessionId s t1 = syntheticMemorySessionId s t2) = (t1 = t2)"
  by (auto simp: syntheticMemorySessionId_def dest: numberToString_inj)

section \<open>Facts about the pass\<close>








lemma recordReply_counters:
  assumes "reply_content r \<noteq> []" "tokensUsed r = Some n"
  shows "recordReply s r =
           (s\<lparr>conversationHistory := conversationHistory s @ [\<lparr>role = assistant, content = reply_content r\<rparr>],
              cumulativeInputTokens := cumulativeInputTokens s + floorOfProduct n double_0_7,
              cumulativeOutputTokens := cumulativeOutputTokens s + floorOfProduct n double_0_3\<rparr>, n)"
  using assms by (simp add: recordReply_def)

section \<open>The model on the concrete environment\<close>


lemma sendPayload_replyWith: "sendPayload (sample_env (replyWith c n)) h k e m v w
   = (Inr \<lparr>reply_content = c, tokensUsed = (if c = [] then None else n)\<rparr>, Suc w)"
  by (simp add: sendPayload_def sample_env_def replyWith_def firstChoiceContent_def)

lemma sendPayload_rejectWith: "sendPayload (sample_env (rejectWith x)) h k e m v w = (Inl x, Suc w)"
  by (simp add: sendPayload_def sample_env_def rejectWith_def)


lemma query_replyWith: "queryAzureOpenAIMultiTurn (sample_env (replyWith c n)) h k e m v w
   = (Inr \<lparr>reply_content = c, tokensUsed = (if c = [] then None else n)\<rparr>, Suc w)"
  by (simp add: queryAzureOpenAIMultiTurn_def sendPayload_replyWith)

lemma query_rejectWith: "queryAzureOpenAIMultiTurn (sample_env (rejectWith x)) h k e m v w = (Inl x, Suc w)"
  by (simp add: queryAzureOpenAIMultiTurn_def sendPayload_rejectWith)


lemma sample_env_sel:
  "buildInitPrompt (sample_env f) = (\<lambda>proj sid prompt mode. ''init '' @ prompt)"
  "buildContinuationPrompt (sample_env f) = (\<lambda>prompt n sid mode. ''continue '' @ prompt)"
  "buildObservationPrompt (sample_env f) = (\<lambda>d. ''observed '' @ obs_tool_name d)"
  "buildSummaryPrompt (sample_env f) = (\<lambda>d mode. ''summarize'')"
  "processAgentResponse (sample_env f) = (\<lambda>txt session used ts dir w. (None, session, w))"
  "shouldFallbackToClaude (sample_env f) = spec_shouldFallbackToClaude"
  "isAbortError (sample_env f) = spec_isAbortError"
  "updateMemorySessionId (sample_env f) = (\<lambda>dbId sid w. (None, w))"
  "getActiveMode (sample_env f) = (\<lambda>w. ())"
  "Date_now (sample_env f) = (\<lambda>w. w)"
  by (simp_all add: sample_env_def)

lemmas pass_defs =
  tryBlock_def getAzureOpenAIConfig_def or_else_def truthy_def assignMemorySessionId_def
  syntheticMemorySessionId_def initExchange_def pushUser_def
  recordReply_def handOver_def processItem_def
  numberToString.simps digitChar_def DEFAULT_AZURE_API_VERSION_def Let_def
  sample_env_sel sample_settings_def sample_session_def sample_observation_def sample_summarize_def

lemmas split_defs = floorOfProduct_def roundSignificand_def double_0_7_def double_0_3_def bitlen.simps Let_def

lemma double_0_7_nearest:
  "2 ^ 52 \<le> fst double_0_7 \<and> fst double_0_7 < 2 ^ 53
   \<and> \<bar>real (fst double_0_7) / 2 ^ snd double_0_7 - 7 / 10\<bar> < 1 / 2 ^ 54"
  by (simp add: double_0_7_def)

lemma double_0_3_nearest:
  "2 ^ 52 \<le> fst double_0_3 \<and> fst double_0_3 < 2 ^ 53
   \<and> \<bar>real (fst double_0_3) / 2 ^ snd double_0_3 - 3 / 10\<bar> < 1 / 2 ^ 55"
  by (simp add: double_0_3_def)

lemma split_100: "floorOfProduct 100 double_0_7 = 70" "floorOfProduct 100 double_0_3 = 30"
  by (simp_all add: split_defs)

lemma split_90: "floorOfProduct 90 double_0_7 = 62" "floorOfProduct 90 double_0_3 = 27"
  by (simp_all add: split_defs)

lemma sample_pass:
  "startSession (sample_env (replyWith ''ok'' (Some 100))) True sample_settings None
     sample_session [sample_observation] 5
   = Resolved
       (sample_session\<lparr>memorySessionId := Some ''azure-openai-abc-5'',
                       conversationHistory := [\<lparr>role = user, content = ''init hello''\<rparr>,
                         \<lparr>role = assistant, content = ''ok''\<rparr>,
                         \<lparr>role = user, content = ''observed Read''\<rparr>,
                         \<lparr>role = assistant, content = ''ok''\<rparr>],
                       lastPromptNumber := 2,
                       cumulativeInputTokens := 140, cumulativeOutputTokens := 60,
                       processingMessageIds := [7]\<rparr>) 7"
  by (simp add: startSession_def pass_defs query_replyWith split_100)

section \<open>The claims\<close>

text \<open>
  C1. For a history whose estimated token sum exceeds the ceiling of 128000, the
  payload of \<open>truncateHistory\<close> is a suffix of the history, in the original order
  and made of whole entries, and its estimated token sum is at most the ceiling.
  The newest entry is kept when its own estimate is at most the ceiling; when the
  newest entry alone exceeds the ceiling, the loop stops at once and the payload is
  empty.
\<close>
theorem truncateHistory_over_budget:
  assumes "MAX_AZURE_CONTEXT_TOKENS < totalTokens history"
  shows "suffix (truncateHistory history) history
       \<and> totalTokens (truncateHistory history) \<le> MAX_AZURE_CONTEXT_TOKENS
       \<and> (if estimateTokens (content (last history)) \<le> MAX_AZURE_CONTEXT_TOKENS
          then truncateHistory history \<noteq> [] \<and> last (truncateHistory history) = last history
          else truncateHistory history = [])"
proof -
  from assms have ne: "history \<noteq> []" by (auto simp: totalTokens_def)
  have eq: "truncateHistory history = truncateLoop history (int (length history) - 1) [] 0"
    using assms by (simp add: truncateHistory_def)
  obtain j where "truncateLoop history (int (length history) - 1) [] 0 = drop j history"
    using truncateLoop_drop [of "int (length history) - 1" history "[]" 0] by auto
  then have 1: "suffix (truncateHistory history) history"
    by (simp add: eq suffix_drop)
  have 2: "totalTokens (truncateHistory history) \<le> MAX_AZURE_CONTEXT_TOKENS"
    unfolding eq by (rule truncateLoop_budget) (simp_all add: totalTokens_def)
  have 3: "truncateHistory history \<noteq> [] \<and> last (truncateHistory history) = last history"
    if "estimateTokens (content (last history)) \<le> MAX_AZURE_CONTEXT_TOKENS"
    using truncateLoop_newest [OF ne that] by (auto simp: eq)
  have 4: "truncateHistory history = []"
    if "\<not> estimateTokens (content (last history)) \<le> MAX_AZURE_CONTEXT_TOKENS"
    using truncateLoop_oversized [OF ne] that by (simp add: eq)
  from 1 2 3 4 show ?thesis by simp
qed

theorem truncateHistory_over_budget_witness:
  "MAX_AZURE_CONTEXT_TOKENS
     < totalTokens [\<lparr>role = user, content = replicate 400000 CHR ''a''\<rparr>,
                    \<lparr>role = assistant, content = replicate 400000 CHR ''b''\<rparr>]
   \<and> truncateHistory [\<lparr>role = user, content = replicate 400000 CHR ''a''\<rparr>,
                      \<lparr>role = assistant, content = replicate 400000 CHR ''b''\<rparr>]
     = [\<lparr>role = assistant, content = replicate 400000 CHR ''b''\<rparr>]
   \<and> suffix (truncateHistory [\<lparr>role = user, content = replicate 400000 CHR ''a''\<rparr>,
                      \<lparr>role = assistant, content = replicate 400000 CHR ''b''\<rparr>])
        [\<lparr>role = user, content = replicate 400000 CHR ''a''\<rparr>,
         \<lparr>role = assistant, content = replicate 400000 CHR ''b''\<rparr>]"
proof -
  let ?H = "[\<lparr>role = user, content = replicate 400000 CHR ''a''\<rparr>,
             \<lparr>role = assistant, content = replicate 400000 CHR ''b''\<rparr>]"
  have h: "MAX_AZURE_CONTEXT_TOKENS < totalTokens ?H"
    by (simp add: totalTokens_def estimateTokens_div MAX_AZURE_CONTEXT_TOKENS_def)
  have v: "truncateHistory ?H = [\<lparr>role = assistant, content = replicate 400000 CHR ''b''\<rparr>]"
    by (simp add: truncateHistory_def truncateLoop.simps totalTokens_def estimateTokens_div
        MAX_AZURE_CONTEXT_TOKENS_def)
  from truncateHistory_over_budget [OF h] h v show ?thesis by simp
qed

theorem truncateHistory_drops_oversized_newest:
  "MAX_AZURE_CONTEXT_TOKENS
     < totalTokens [\<lparr>role = assistant, content = ''ok''\<rparr>,
                    \<lparr>role = user, content = replicate 512004 CHR ''a''\<rparr>]
   \<and> truncateHistory [\<lparr>role = assistant, content = ''ok''\<rparr>,
                      \<lparr>role = user, content = replicate 512004 CHR ''a''\<rparr>] = []
   \<and> last [\<lparr>role = assistant, content = ''ok''\<rparr>,
            \<lparr>role = user, content = replicate 512004 CHR ''a''\<rparr>]
       \<notin> set (truncateHistory [\<lparr>role = assistant, content = ''ok''\<rparr>,
                                 \<lparr>role = user, content = replicate 512004 CHR ''a''\<rparr>])"
  by (simp add: truncateHistory_def truncateLoop.simps totalTokens_def estimateTokens_div
        MAX_AZURE_CONTEXT_TOKENS_def)



text \<open>
  C3. \<open>queryAzureOpenAIMultiTurn\<close> leaves the array it is given as it was: on the
  store, every array that existed before the call, the session's history among
  them, has the same entries after the call, whether or not the payload was
  truncated; the truncated payload is a new array. The reply is the one that the
  model on values computes from the history.
\<close>
theorem query_leaves_history_in_place:
  assumes "history < length st"
  shows "take (length st) (snd (queryAzureOpenAIMultiTurn_store env st history k e m v w)) = st
       \<and> snd (queryAzureOpenAIMultiTurn_store env st history k e m v w) ! history = st ! history
       \<and> fst (queryAzureOpenAIMultiTurn_store env st history k e m v w)
           = queryAzureOpenAIMultiTurn env (st ! history) k e m v w"
proof -
  obtain t st' where ts: "truncateHistory_store st history = (t, st')"
    by (cases "truncateHistory_store st history")
  from truncateHistory_store_refines [OF assms] ts
  have old: "take (length st) st' = st" and new: "st' ! t = truncateHistory (st ! history)"
    by simp_all
  from old assms have "st' ! history = st ! history"
    by (metis nth_take)
  with old new ts show ?thesis
    by (simp add: queryAzureOpenAIMultiTurn_store_def queryAzureOpenAIMultiTurn_def)
qed

theorem query_leaves_history_in_place_witness:
  "(0 :: nat) < length [[\<lparr>role = user, content = replicate 400000 CHR ''a''\<rparr>,
                        \<lparr>role = assistant, content = replicate 400000 CHR ''b''\<rparr>]]
   \<and> snd (queryAzureOpenAIMultiTurn_store (sample_env (replyWith ''ok'' None))
        [[\<lparr>role = user, content = replicate 400000 CHR ''a''\<rparr>,
          \<lparr>role = assistant, content = replicate 400000 CHR ''b''\<rparr>]] 0
        ''key'' ''https://example.openai.azure.com'' ''gpt-4o'' ''2024-10-21'' 0)
      = [[\<lparr>role = user, content = replicate 400000 CHR ''a''\<rparr>,
          \<lparr>role = assistant, content = replicate 400000 CHR ''b''\<rparr>],
         [\<lparr>role = assistant, content = replicate 400000 CHR ''b''\<rparr>]]"
proof -
  let ?st = "[[\<lparr>role = user, content = replicate 400000 CHR ''a''\<rparr>,
               \<lparr>role = assistant, content = replicate 400000 CHR ''b''\<rparr>]]"
  have h: "(0 :: nat) < length ?st" by simp
  have v: "snd (queryAzureOpenAIMultiTurn_store (sample_env (replyWith ''ok'' None)) ?st 0
        ''key'' ''https://example.openai.azure.com'' ''gpt-4o'' ''2024-10-21'' 0)
      = [[\<lparr>role = user, content = replicate 400000 CHR ''a''\<rparr>,
          \<lparr>role = assistant, content = replicate 400000 CHR ''b''\<rparr>],
         [\<lparr>role = assistant, content = replicate 400000 CHR ''b''\<rparr>]]"
    by (simp add: queryAzureOpenAIMultiTurn_store_def
        truncateHistory_store_def truncateLoop_store.simps totalTokens_def estimateTokens_div
        MAX_AZURE_CONTEXT_TOKENS_def Let_def)
  from query_leaves_history_in_place [OF h, of "sample_env (replyWith ''ok'' None)"
      "''key''" "''https://example.openai.azure.com''" "''gpt-4o''" "''2024-10-21''" 0] h v
  show ?thesis by simp
qed

text \<open>
  C4. The split at a reported total of 90 tokens: \<open>90 * 0.7\<close> is
  \<open>62.99999999999999\<close> in double precision, so the input counter grows by 62 and
  the output counter by 27, whereas the floors of 63 and 27 are 63 and 27.
\<close>
theorem token_split_at_90:
  "processItem (sample_env (replyWith ''ok'' (Some 90))) (getAzureOpenAIConfig sample_settings None) ()
     (sample_session\<lparr>memorySessionId := Some ''azure-openai-abc-0''\<rparr>, None, 0) sample_observation
   = (Inr (),
      sample_session\<lparr>memorySessionId := Some ''azure-openai-abc-0'',
                      lastPromptNumber := 2,
                      conversationHistory := [\<lparr>role = user, content = ''observed Read''\<rparr>,
                                              \<lparr>role = assistant, content = ''ok''\<rparr>],
                      cumulativeInputTokens := 62, cumulativeOutputTokens := 27,
                      processingMessageIds := [7]\<rparr>,
      Some ''/src'', 1)
   \<and> \<lfloor>(90 :: real) * 7 / 10\<rfloor> = 63 \<and> \<lfloor>(90 :: real) * 3 / 10\<rfloor> = 27"
  by (simp add: pass_defs query_replyWith split_90)




text \<open>
  C6. When the API key (settings and credential), the endpoint or the model is
  absent, the \<open>try\<close> block throws the configuration error with the session and
  the outside world untouched, whatever \<open>fetch\<close> would do. \<open>startSession\<close> then
  rejects with that error, unless the error is not an abort,
  \<open>shouldFallbackToClaude\<close> accepts it and a fallback agent is set: then the
  unchanged session is handed to the fallback agent.
\<close>
theorem missing_configuration_stops_before_the_network:
  assumes "(\<not> truthy (CLAUDE_MEM_AZURE_OPENAI_API_KEY settings) \<and> \<not> truthy credential)
         \<or> \<not> truthy (CLAUDE_MEM_AZURE_OPENAI_ENDPOINT settings)
         \<or> \<not> truthy (CLAUDE_MEM_AZURE_OPENAI_MODEL settings)"
  shows "\<exists>e. (e = apiKeyError \<or> e = endpointModelError)
           \<and> tryBlock env settings credential session pending w
               = (Inl (ConfigurationCheck, e), session, w)
           \<and> tryBlock (env\<lparr>fetch := f\<rparr>) settings credential session pending w
               = (Inl (ConfigurationCheck, e), session, w)
           \<and> startSession env fallbackAgent settings credential session pending w
               = (if \<not> isAbortError env e \<and> shouldFallbackToClaude env e \<and> fallbackAgent
                  then HandedToFallback session w else Rejected e session w)"
proof (cases "apiKey (getAzureOpenAIConfig settings credential) = []")
  case True
  then show ?thesis
    by (intro exI [of _ apiKeyError])
       (auto simp: tryBlock_def startSession_def catchBlock_def Let_def)
next
  case False
  with assms have "endpoint (getAzureOpenAIConfig settings credential) = []
      \<or> model (getAzureOpenAIConfig settings credential) = []"
    by (auto simp: getAzureOpenAIConfig_def or_else_def truthy_def split: option.splits if_splits)
  with False show ?thesis
    by (intro exI [of _ endpointModelError])
       (auto simp: tryBlock_def startSession_def catchBlock_def Let_def)
qed

theorem missing_configuration_stops_before_the_network_witness:
  "\<not> truthy (CLAUDE_MEM_AZURE_OPENAI_MODEL (sample_settings\<lparr>CLAUDE_MEM_AZURE_OPENAI_MODEL := None\<rparr>))
   \<and> startSession (sample_env (replyWith ''ok'' None)) False
        (sample_settings\<lparr>CLAUDE_MEM_AZURE_OPENAI_MODEL := None\<rparr>) None sample_session
        [sample_observation] 0
      = Rejected endpointModelError sample_session 0"
proof -
  let ?settings = "sample_settings\<lparr>CLAUDE_MEM_AZURE_OPENAI_MODEL := None\<rparr>"
  let ?env = "sample_env (replyWith ''ok'' None)"
  have h: "\<not> truthy (CLAUDE_MEM_AZURE_OPENAI_MODEL ?settings)"
    by (simp add: truthy_def)
  have t: "tryBlock ?env ?settings None sample_session [sample_observation] 0
             = (Inl (ConfigurationCheck, endpointModelError), sample_session, 0)"
    by (simp add: tryBlock_def getAzureOpenAIConfig_def or_else_def sample_settings_def Let_def)
  from h have "(\<not> truthy (CLAUDE_MEM_AZURE_OPENAI_API_KEY ?settings) \<and> \<not> truthy None)
         \<or> \<not> truthy (CLAUDE_MEM_AZURE_OPENAI_ENDPOINT ?settings)
         \<or> \<not> truthy (CLAUDE_MEM_AZURE_OPENAI_MODEL ?settings)"
    by simp
  from missing_configuration_stops_before_the_network [OF this, of ?env sample_session
      "[sample_observation]" 0 "replyWith ''ok'' None" False]
  obtain e where "tryBlock ?env ?settings None sample_session [sample_observation] 0
                    = (Inl (ConfigurationCheck, e), sample_session, 0)"
    and "startSession ?env False ?settings None sample_session [sample_observation] 0
           = Rejected e sample_session 0"
    by auto
  with t h show ?thesis by simp
qed

theorem missing_key_is_handed_to_fallback:
  "\<not> truthy (CLAUDE_MEM_AZURE_OPENAI_API_KEY (sample_settings\<lparr>CLAUDE_MEM_AZURE_OPENAI_API_KEY := None\<rparr>))
   \<and> startSession (sample_env (replyWith ''ok'' None)) True
        (sample_settings\<lparr>CLAUDE_MEM_AZURE_OPENAI_API_KEY := None\<rparr>) None sample_session [] 0
      = HandedToFallback sample_session 0"
  by (simp add: startSession_def catchBlock_def tryBlock_def getAzureOpenAIConfig_def or_else_def
      truthy_def sample_settings_def sample_env_sel spec_shouldFallbackToClaude_def
      spec_isAbortError_def apiKeyError_def newError_def Let_def)

text \<open>
  C7. An error thrown in the \<open>try\<close> block for which \<open>isAbortError\<close> holds is
  rethrown by \<open>startSession\<close>, and the pass is not handed to the fallback agent,
  whether one is set or not.
\<close>
theorem abort_is_rethrown:
  assumes "tryBlock env settings credential session pending w = (Inl (st, e), s', w')"
      and "isAbortError env e"
  shows "startSession env fallbackAgent settings credential session pending w = Rejected e s' w'
       \<and> (\<forall>s2 w2. startSession env fallbackAgent settings credential session pending w
                     \<noteq> HandedToFallback s2 w2)"
  using assms by (simp add: startSession_def catchBlock_def)

theorem abort_is_rethrown_witness:
  "tryBlock (sample_env (rejectWith (JsError ''AbortError'' ''This operation was aborted'')))
      sample_settings None sample_session [sample_observation] 0
     = (Inl (BackendCall, JsError ''AbortError'' ''This operation was aborted''),
        sample_session\<lparr>memorySessionId := Some ''azure-openai-abc-0'',
                        conversationHistory := [\<lparr>role = user, content = ''init hello''\<rparr>]\<rparr>, 1)
   \<and> isAbortError (sample_env (rejectWith (JsError ''AbortError'' ''This operation was aborted'')))
        (JsError ''AbortError'' ''This operation was aborted'')
   \<and> startSession (sample_env (rejectWith (JsError ''AbortError'' ''This operation was aborted''))) True
        sample_settings None sample_session [sample_observation] 0
     = Rejected (JsError ''AbortError'' ''This operation was aborted'')
        (sample_session\<lparr>memorySessionId := Some ''azure-openai-abc-0'',
                        conversationHistory := [\<lparr>role = user, content = ''init hello''\<rparr>]\<rparr>) 1"
proof -
  let ?e = "JsError ''AbortError'' ''This operation was aborted''"
  have t: "tryBlock (sample_env (rejectWith ?e)) sample_settings None sample_session [sample_observation] 0
     = (Inl (BackendCall, ?e),
        sample_session\<lparr>memorySessionId := Some ''azure-openai-abc-0'',
                        conversationHistory := [\<lparr>role = user, content = ''init hello''\<rparr>]\<rparr>, 1)"
    by (simp add: pass_defs query_rejectWith)
  have a: "isAbortError (sample_env (rejectWith ?e)) ?e"
    by (simp add: sample_env_sel spec_isAbortError_def)
  from abort_is_rethrown [OF t a, of True] t a show ?thesis by simp
qed

text \<open>
  C8. A \<open>summarize\<close> message met while \<open>memorySessionId\<close> is not set throws the
  error of the handle check before any prompt is built or any call is made. The
  history, the counters, the prompt number and the outside world are as before; the
  message's persistent id has been appended to \<open>processingMessageIds\<close>, which the
  loop does first for every message.
\<close>
theorem summarize_without_handle_is_refused:
  assumes "message_type msg = summarize" and "\<not> truthy (memorySessionId s)"
  shows "processItem env cfg mode (s, lc, w) msg
           = (Inl (HandleCheck, summaryError),
              s\<lparr>processingMessageIds := processingMessageIds s @ [persistentId msg]\<rparr>,
              (if truthy (cwd msg) then cwd msg else lc), w)"
  using assms
  by (auto simp: processItem_def Let_def truthy_def split: option.splits)

theorem summarize_without_handle_is_refused_witness:
  "message_type sample_summarize = summarize \<and> \<not> truthy (memorySessionId sample_session)
   \<and> processItem (sample_env (replyWith ''ok'' None)) (getAzureOpenAIConfig sample_settings None) ()
        (sample_session, None, 0) sample_summarize
      = (Inl (HandleCheck, summaryError),
         sample_session\<lparr>processingMessageIds := [8]\<rparr>, None, 0)"
proof -
  have a: "message_type sample_summarize = summarize"
    by (simp add: sample_summarize_def)
  have b: "\<not> truthy (memorySessionId sample_session)"
    by (simp add: sample_session_def truthy_def)
  from summarize_without_handle_is_refused [OF a b, of "sample_env (replyWith ''ok'' None)"
      "getAzureOpenAIConfig sample_settings None" "()" None 0] a b
  show ?thesis by (simp add: sample_summarize_def sample_session_def truthy_def)
qed

theorem summarize_without_handle_changes_the_pending_ids:
  "message_type sample_summarize = summarize \<and> \<not> truthy (memorySessionId sample_session)
   \<and> processingMessageIds (fst (snd (processItem (sample_env (replyWith ''ok'' None))
        (getAzureOpenAIConfig sample_settings None) () (sample_session, None, 0) sample_summarize)))
      = [8]
   \<and> processingMessageIds sample_session = []"
  by (simp add: processItem_def Let_def truthy_def sample_summarize_def sample_session_def)

text \<open>
  C9. For a session without a handle, the synthetic handle is \<open>azure-openai-\<close>,
  the content session id, a dash and the clock reading in milliseconds. Two runs of
  the step from the same session state give the same handle exactly when the clock
  readings are the same.
\<close>
theorem memory_handle_follows_the_clock:
  assumes "\<not> truthy (memorySessionId s)"
  shows "memorySessionId (fst (snd (assignMemorySessionId env s w)))
           = Some (''azure-openai-'' @ contentSessionId s @ ''-'' @ numberToString (Date_now env w))
       \<and> ((memorySessionId (fst (snd (assignMemorySessionId env s w)))
             = memorySessionId (fst (snd (assignMemorySessionId env s w'))))
            = (Date_now env w = Date_now env w'))"
proof -
  have v: "memorySessionId (fst (snd (assignMemorySessionId env s x)))
             = Some (syntheticMemorySessionId s (Date_now env x))" for x
    using assms by (simp add: assignMemorySessionId_def Let_def split: prod.splits option.splits)
  show ?thesis
    by (simp add: v syntheticMemorySessionId_inj) (simp add: syntheticMemorySessionId_def)
qed

theorem memory_handle_follows_the_clock_witness:
  "\<not> truthy (memorySessionId sample_session)
   \<and> memorySessionId (fst (snd (assignMemorySessionId (sample_env (replyWith ''ok'' None))
        sample_session 1730534400123)))
      = Some ''azure-openai-abc-1730534400123''"
proof -
  have b: "\<not> truthy (memorySessionId sample_session)"
    by (simp add: sample_session_def truthy_def)
  from memory_handle_follows_the_clock [OF b, of "sample_env (replyWith ''ok'' None)"
      1730534400123 1730534400123] b
  show ?thesis by (simp add: sample_env_sel sample_session_def numberToString.simps digitChar_def)
qed

theorem memory_handle_differs_between_runs:
  "memorySessionId (fst (snd (assignMemorySessionId (sample_env (replyWith ''ok'' None))
        sample_session 1730534400123)))
     = Some ''azure-openai-abc-1730534400123''
   \<and> memorySessionId (fst (snd (assignMemorySessionId (sample_env (replyWith ''ok'' None))
        sample_session 1730534400124)))
     = Some ''azure-openai-abc-1730534400124''
   \<and> ''azure-openai-abc-1730534400123'' \<noteq> ''azure-openai-abc-1730534400124''"
  by (simp add: assignMemorySessionId_def syntheticMemorySessionId_def truthy_def Let_def
      sample_env_sel sample_session_def numberToString.simps digitChar_def)

text \<open>
  C10. For a history whose estimated token sum is at most the ceiling of 128000,
  \<open>truncateHistory\<close> returns the history itself: the same entries in the same
  order, and on the store the same reference, with no array written.
\<close>
theorem truncateHistory_identity_within_budget:
  assumes "totalTokens history \<le> MAX_AZURE_CONTEXT_TOKENS"
  shows "truncateHistory history = history
       \<and> truncateHistory_store (before @ history # after) (length before)
           = (length before, before @ history # after)"
  using assms by (simp add: truncateHistory_def truncateHistory_store_def)

theorem truncateHistory_identity_within_budget_witness:
  "totalTokens [\<lparr>role = user, content = ''hello''\<rparr>, \<lparr>role = assistant, content = ''hi''\<rparr>]
     \<le> MAX_AZURE_CONTEXT_TOKENS
   \<and> truncateHistory [\<lparr>role = user, content = ''hello''\<rparr>, \<lparr>role = assistant, content = ''hi''\<rparr>]
     = [\<lparr>role = user, content = ''hello''\<rparr>, \<lparr>role = assistant, content = ''hi''\<rparr>]"
proof -
  have h: "totalTokens [\<lparr>role = user, content = ''hello''\<rparr>, \<lparr>role = assistant, content = ''hi''\<rparr>]
     \<le> MAX_AZURE_CONTEXT_TOKENS"
    by (simp add: totalTokens_def estimateTokens_div MAX_AZURE_CONTEXT_TOKENS_def)
  from truncateHistory_identity_within_budget [OF h] h show ?thesis by simp
qed

end
